theory Spec2Isabelle
  imports Complex_Main "HOL-Library.Word"
begin

unbundle bit_operations_syntax

section \<open>Python values used by \<^verbatim>\<open>examples/mav2pcap.py\<close>\<close>

text \<open>
  The script reads the whole MAVLink log as one byte string and re-slices it from the
  front.  A byte string is a list of 8-bit words; \<^verbatim>\<open>chr(n)\<close> for \<open>n < 256\<close> is the one-byte
  string holding \<open>n\<close>, and two one-byte strings are equal when the bytes are.  Counters
  and indices that never go negative are natural numbers; the result of
  \<^verbatim>\<open>str.find\<close>, which is \<open>-1\<close> when nothing is found, is an integer.
\<close>

type_synonym byte = "8 word"

text \<open>The exceptions that the script, \<^verbatim>\<open>construct\<close> and \<^verbatim>\<open>struct\<close> can raise.\<close>

datatype error = FieldError | ConstError | IndexError | ZeroDivisionError | StructError

text \<open>\<^verbatim>\<open>xs[n]\<close> for \<open>n \<ge> 0\<close>: an \<^verbatim>\<open>IndexError\<close> out of range.\<close>

definition getitem :: "'a list \<Rightarrow> nat \<Rightarrow> error + 'a" where
  "getitem xs n = (if n < length xs then Inr (xs ! n) else Inl IndexError)"

text \<open>\<^verbatim>\<open>xs[a:b]\<close> for \<open>0 \<le> a\<close> and \<open>0 \<le> b\<close>: never raises, and is cut at the end of \<open>xs\<close>.\<close>

definition getslice :: "'a list \<Rightarrow> nat \<Rightarrow> nat \<Rightarrow> 'a list" where
  "getslice xs a b = take (b - a) (drop a xs)"

text \<open>\<^verbatim>\<open>data.find(c)\<close> for a one-byte \<open>c\<close>: the first index of \<open>c\<close>, or \<open>-1\<close>.\<close>

fun find_byte :: "byte list \<Rightarrow> byte \<Rightarrow> int" where
  "find_byte [] c = -1"
| "find_byte (x # xs) c =
     (if x = c then 0
      else (let r = find_byte xs c in if r < 0 then -1 else r + 1))"

section \<open>Constants\<close>

definition MAVLINK_MAGIC :: byte where
  "MAVLINK_MAGIC = 0xfe"

definition write_junk :: bool where
  "write_junk = True"

definition MAVLINK_MESSAGE_CRCS :: "byte list" where
  "MAVLINK_MESSAGE_CRCS =
    [
     50, 124, 137, 0, 237, 217, 104, 119, 0, 0, 0, 89, 0, 0, 0, 0,
     0, 0, 0, 0, 214, 159, 220, 168, 24, 23, 170, 144, 67, 115, 39, 246,
     185, 104, 237, 244, 242, 212, 9, 254, 230, 28, 28, 132, 221, 232, 11, 153,
     41, 39, 214, 223, 141, 33, 15, 3, 100, 24, 239, 238, 30, 240, 183, 130,
     130, 0, 148, 21, 0, 243, 124, 0, 0, 0, 20, 0, 152, 143, 0, 0,
     127, 106, 0, 0, 0, 0, 0, 0, 0, 231, 183, 63, 54, 0, 0, 0,
     0, 0, 0, 0, 175, 102, 158, 208, 56, 93, 0, 0, 0, 0, 235, 93,
     124, 0, 0, 0, 0, 0, 0, 0, 0, 0, 0, 0, 0, 0, 0, 0,
     0, 0, 0, 0, 0, 0, 0, 0, 0, 0, 0, 0, 0, 0, 0, 0,
     0, 0, 0, 42, 241, 15, 134, 219, 208, 188, 84, 22, 19, 21, 134, 0,
     78, 68, 189, 127, 111, 21, 21, 144, 1, 234, 73, 181, 22, 0, 0, 0,
     0, 0, 0, 0, 0, 0, 0, 0, 0, 0, 0, 0, 0, 0, 0, 0,
     0, 0, 0, 0, 0, 0, 0, 0, 0, 0, 0, 0, 0, 0, 0, 0,
     0, 0, 0, 0, 0, 0, 0, 0, 0, 0, 0, 0, 0, 0, 0, 0,
     0, 0, 0, 0, 0, 0, 0, 0, 0, 0, 0, 0, 0, 0, 0, 0,
     0, 0, 0, 0, 0, 0, 0, 0, 0, 204, 49, 170, 44, 83, 46, 0
    ]"

section \<open>The checksum of \<^verbatim>\<open>mavutil.x25crc\<close>\<close>

text \<open>
  Modelled from the spec: the class \<^verbatim>\<open>x25crc\<close> of \<^verbatim>\<open>pymavlink/mavutil.py\<close>, which the
  script imports and which is not among the source files.  The spec describes it as a
  running CRC-16/X.25, polynomial 0x1021 reflected (that is 0x8408, shifting right),
  initial value 0xFFFF, accumulated byte by byte; the running value itself is compared,
  so there is no final inversion.
\<close>

definition crc_shift :: "16 word \<Rightarrow> 16 word" where
  "crc_shift c = (if bit c 0 then drop_bit 1 c XOR 0x8408 else drop_bit 1 c)"

definition accumulate_byte :: "16 word \<Rightarrow> byte \<Rightarrow> 16 word" where
  "accumulate_byte crc b =
     crc_shift (crc_shift (crc_shift (crc_shift
       (crc_shift (crc_shift (crc_shift (crc_shift (crc XOR ucast b))))))))"

text \<open>\<^verbatim>\<open>cc.accumulate(buf)\<close>: the new value of \<^verbatim>\<open>cc.crc\<close>.\<close>

fun accumulate :: "16 word \<Rightarrow> byte list \<Rightarrow> 16 word" where
  "accumulate crc [] = crc"
| "accumulate crc (b # buf) = accumulate (accumulate_byte crc b) buf"

text \<open>\<^verbatim>\<open>x25crc(buf)\<close>: a fresh accumulator, started at 0xFFFF, fed with \<open>buf\<close>.\<close>

definition x25crc :: "byte list \<Rightarrow> 16 word" where
  "x25crc buf = accumulate 0xffff buf"

section \<open>Parsing with \<^verbatim>\<open>construct\<close>\<close>

text \<open>
  \<^verbatim>\<open>construct\<close> is a third-party library.  A fixed-size field raises
  \<^verbatim>\<open>FieldError\<close> when the stream holds fewer bytes than the field needs; \<^verbatim>\<open>Const\<close>
  parses its field and then raises \<^verbatim>\<open>ConstError\<close> (which is not a \<^verbatim>\<open>FieldError\<close>) when
  the value differs; a \<^verbatim>\<open>Struct\<close> parses its fields in order.
\<close>

record header =
  magic :: byte
  plength :: byte
  sequence :: byte
  sysid :: byte
  compid :: byte
  msgid :: byte

text \<open>\<^verbatim>\<open>find_next_frame\<close>: find a potential start of frame.\<close>

definition find_next_frame :: "byte list \<Rightarrow> int" where
  "find_next_frame data' = find_byte data' 0xfe"

text \<open>\<^verbatim>\<open>parse_header\<close>: split up the header information, from \<^verbatim>\<open>data[0:6]\<close>.\<close>

definition parse_header :: "byte list \<Rightarrow> error + header" where
  "parse_header data' =
     (case getslice data' 0 6 of
        [] \<Rightarrow> Inl FieldError
      | m # rest \<Rightarrow>
          if m \<noteq> MAVLINK_MAGIC then Inl ConstError
          else (case rest of
                  [pl, sq, sy, co, mi] \<Rightarrow>
                    Inr \<lparr>magic = m, plength = pl, sequence = sq, sysid = sy,
                         compid = co, msgid = mi\<rparr>
                | _ \<Rightarrow> Inl FieldError))"

text \<open>\<^verbatim>\<open>ULInt16('crc').parse(bs)\<close>: two bytes, the low one first.\<close>

definition ULInt16_parse :: "byte list \<Rightarrow> error + 16 word" where
  "ULInt16_parse bs =
     (case bs of
        lo # hi # _ \<Rightarrow> Inr (ucast lo OR push_bit 8 (ucast hi))
      | _ \<Rightarrow> Inl FieldError)"

section \<open>The output file, as the packets written to it\<close>

text \<open>
  A packet is what \<^verbatim>\<open>pcap.write\<close> receives: the triple \<open>(tv_sec, tv_usec, length)\<close> and
  the raw bytes.  \<^verbatim>\<open>write_packet\<close> builds it from the sequence number, the flags
  (0 for a good frame, 1 for a frame with a wrong checksum, 3 for junk) and the length.
  The converter sees \<^verbatim>\<open>pcap_file\<close> only through these calls, so here the file is the
  list of the packets handed to it, in order; their bytes in the container are the
  subject of the last section.
\<close>

type_synonym packet = "(nat \<times> nat \<times> nat) \<times> byte list"

definition write_packet :: "nat \<Rightarrow> byte list \<Rightarrow> nat \<Rightarrow> nat \<Rightarrow> packet list \<Rightarrow> packet list" where
  "write_packet number data' flags pkt_length pcap_file' =
     (let pcap_header = (number, flags, pkt_length)
      in pcap_file' @ [(pcap_header, data')])"

section \<open>The converter\<close>

text \<open>
  The local variables of \<^verbatim>\<open>convert_file\<close>, and the output file.  \<open>data\<close> is the part of
  the input not yet consumed; \<open>i\<close> counts the rounds of the loop; \<open>done_flag\<close> is the
  variable \<^verbatim>\<open>done\<close>.
\<close>

record state =
  data :: "byte list"
  i :: nat
  done_flag :: bool
  skipped_char :: "byte option"
  junk :: "byte list"
  cnt_ok :: nat
  cnt_junk :: nat
  cnt_crc :: nat
  pcap_file :: "packet list"

text \<open>
  Lines 160 to 170: look for a potential start of frame and, when it is not at the front,
  write a junk packet and drop the bytes before it.  \<open>junk\<close> is assigned only when a
  skipped character is pending; otherwise the packet written holds whatever \<open>junk\<close> held
  before.
\<close>

definition skip_junk :: "state \<Rightarrow> state" where
  "skip_junk s =
     (let next_sof = find_next_frame (data s) in
      if next_sof > 0 then
        (let s1 =
           (if write_junk then
              (let s0 =
                 (case skipped_char s of
                    Some c \<Rightarrow>
                      s\<lparr>junk := c # take (nat next_sof) (data s), skipped_char := None\<rparr>
                  | None \<Rightarrow> s)
               in s0\<lparr>pcap_file :=
                       write_packet (i s0) (junk s0) 3 (length (junk s0)) (pcap_file s0)\<rparr>)
            else s)
         in s1\<lparr>data := drop (nat next_sof) (data s1), cnt_junk := cnt_junk s1 + 1\<rparr>)
      else s)"

text \<open>
  Lines 185 to 211, the body of the second \<^verbatim>\<open>try\<close>: compute the checksum, peek at the
  byte after the proposed frame, and either stow away the first byte and retry one byte
  further, or write the frame.  An \<^verbatim>\<open>IndexError\<close> can come from the seed table and from
  \<^verbatim>\<open>data[pkt_length]\<close>.
\<close>

definition peek_next_sof :: "header \<Rightarrow> nat \<Rightarrow> nat \<Rightarrow> 16 word \<Rightarrow> state \<Rightarrow> error + state" where
  "peek_next_sof hdr payload_len pkt_length pkt_crc s =
     (let cc = x25crc (getslice (data s) 1 (6 + payload_len))
      in case getitem MAVLINK_MESSAGE_CRCS (unat (msgid hdr)) of
           Inl e \<Rightarrow> Inl e
         | Inr seed \<Rightarrow>
             (let x25_crc = accumulate cc [seed];
                  crc_flag = (if x25_crc \<noteq> pkt_crc then 1 else 0 :: nat)
              in case getitem (data s) pkt_length of
                   Inl e \<Rightarrow> Inl e
                 | Inr next_magic \<Rightarrow>
                     if MAVLINK_MAGIC \<noteq> next_magic then
                       (case getitem (data s) 0 of
                          Inl e \<Rightarrow> Inl e
                        | Inr c \<Rightarrow>
                            Inr (s\<lparr>skipped_char := Some c, data := drop 1 (data s)\<rparr>))
                     else
                       (let pkt = take pkt_length (data s);
                            s1 = s\<lparr>pcap_file :=
                                     write_packet (i s) pkt crc_flag (length pkt) (pcap_file s)\<rparr>;
                            s2 = s1\<lparr>data := drop pkt_length (data s1)\<rparr>
                        in if crc_flag \<noteq> 0 then Inr (s2\<lparr>cnt_crc := cnt_crc s2 + 1\<rparr>)
                           else Inr (s2\<lparr>cnt_ok := cnt_ok s2 + 1\<rparr>))))"

text \<open>
  Lines 173 to 216: assume the sentinel found is the start of a packet.  \<^verbatim>\<open>parse_header\<close>
  is called outside every \<^verbatim>\<open>try\<close>, so what it raises leaves \<^verbatim>\<open>convert_file\<close>; the result
  \<open>Inl (e, s)\<close> is the exception with the state at the moment it is raised.  The first
  \<^verbatim>\<open>try\<close> turns a \<^verbatim>\<open>FieldError\<close> of the checksum field into \<^verbatim>\<open>done = True\<close>, the second
  an \<^verbatim>\<open>IndexError\<close>.
\<close>

definition frame_attempt :: "state \<Rightarrow> error \<times> state + state" where
  "frame_attempt s =
     (case parse_header (data s) of
        Inl e \<Rightarrow> Inl (e, s)
      | Inr hdr \<Rightarrow>
          (let payload_len = unat (plength hdr);
               pkt_length = 6 + payload_len + 2
           in case ULInt16_parse (getslice (data s) (pkt_length - 2) pkt_length) of
                Inl e \<Rightarrow> if e = FieldError then Inr (s\<lparr>done_flag := True\<rparr>) else Inl (e, s)
              | Inr pkt_crc \<Rightarrow>
                  (case peek_next_sof hdr payload_len pkt_length pkt_crc s of
                     Inl e \<Rightarrow> if e = IndexError then Inr (s\<lparr>done_flag := True\<rparr>) else Inl (e, s)
                   | Inr s' \<Rightarrow> Inr s')))"

text \<open>One round of the \<^verbatim>\<open>while\<close> loop, lines 158 to 216.\<close>

definition loop_body :: "state \<Rightarrow> error \<times> state + state" where
  "loop_body s = frame_attempt (skip_junk (s\<lparr>i := i s + 1\<rparr>))"

text \<open>The \<^verbatim>\<open>while not done\<close> loop.  Every round that goes on shortens \<open>data\<close>.\<close>

function loop :: "state \<Rightarrow> error \<times> state + state" where
  "loop s =
     (if done_flag s then Inr s
      else (case loop_body s of
              Inl e \<Rightarrow> Inl e
            | Inr s' \<Rightarrow> loop s'))"
  by pat_completeness auto
termination
proof (relation "measure (\<lambda>s. if done_flag s then 0 else Suc (length (data s)))")
  show "wf (measure (\<lambda>s. if done_flag s then 0 else Suc (length (data s))))"
    by simp
next
  fix s s'
  assume running: "\<not> done_flag s" and round: "loop_body s = Inr s'"
  define t where "t = skip_junk (s\<lparr>i := i s + 1\<rparr>)"
  have skipped: "length (data t) \<le> length (data s)"
    by (simp add: t_def skip_junk_def Let_def split: option.splits)
  have attempt: "frame_attempt t = Inr s'"
    using round by (simp add: loop_body_def t_def)
  have "length (data s') < length (data t)" if "\<not> done_flag s'"
    using attempt that
    by (auto simp: frame_attempt_def peek_next_sof_def getitem_def Let_def
             split: sum.splits if_splits)
  with skipped have "\<not> done_flag s' \<Longrightarrow> length (data s') < length (data s)"
    by simp
  then show "(s', s) \<in> measure (\<lambda>s. if done_flag s then 0 else Suc (length (data s)))"
    using running by auto
qed

text \<open>
  The equation of \<open>loop\<close> is unfolded by hand, one round at a time; as a rewrite rule
  it would not end.
\<close>

declare loop.simps [simp del]

text \<open>
  Line 217: the counters and the share of junk and checksum errors, in percent.  The
  division raises \<^verbatim>\<open>ZeroDivisionError\<close> when nothing was counted.  The quotient is exact
  here; the rounding of Python's floats is not modelled.
\<close>

definition report :: "state \<Rightarrow> error + nat \<times> nat \<times> nat \<times> rat" where
  "report s =
     (if cnt_junk s + cnt_ok s + cnt_crc s = 0 then Inl ZeroDivisionError
      else Inr (cnt_ok s, cnt_crc s, cnt_junk s,
                100 * of_nat (cnt_junk s + cnt_crc s) / of_nat (cnt_junk s + cnt_ok s + cnt_crc s)))"

text \<open>
  \<^verbatim>\<open>convert_file\<close>: the whole file is read at once, the loop runs, the report is printed.
  The result is the exception that leaves the function, or the final state and the
  report; either way the state holds the packets written.
\<close>

definition convert_file :: "byte list \<Rightarrow> packet list \<Rightarrow> error \<times> state + state \<times> (nat \<times> nat \<times> nat \<times> rat)" where
  "convert_file mavlink_file pcap_file' =
     (let s0 = \<lparr>data = mavlink_file, i = 0, done_flag = False, skipped_char = None,
                 junk = [], cnt_ok = 0, cnt_junk = 0, cnt_crc = 0, pcap_file = pcap_file'\<rparr>
      in case loop s0 of
           Inl e \<Rightarrow> Inl e
         | Inr s \<Rightarrow>
             (case report s of
                Inl e \<Rightarrow> Inl (e, s)
              | Inr r \<Rightarrow> Inr (s, r)))"

text \<open>The packets in the output file after a run, however it ended.\<close>

definition written :: "error \<times> state + state \<times> 'r \<Rightarrow> packet list" where
  "written r = (case r of Inl (e, s) \<Rightarrow> pcap_file s | Inr (s, rep) \<Rightarrow> pcap_file s)"

section \<open>The capture container\<close>












section \<open>Basic facts\<close>

text \<open>The seed table has an entry for every value of a byte.\<close>

lemma length_MAVLINK_MESSAGE_CRCS: "length MAVLINK_MESSAGE_CRCS = 256"
  by (simp add: MAVLINK_MESSAGE_CRCS_def)

lemma getitem_seed: "getitem MAVLINK_MESSAGE_CRCS (unat (m :: byte)) = Inr (MAVLINK_MESSAGE_CRCS ! unat m)"
proof -
  have "unat m < 2 ^ LENGTH(8)" by (rule unsigned_less)
  then show ?thesis by (simp add: getitem_def length_MAVLINK_MESSAGE_CRCS)
qed


lemma ULInt16_parse_full:
  assumes "2 \<le> n" and "n \<le> length xs"
  shows "ULInt16_parse (getslice xs (n - 2) n) =
           Inr (ucast (xs ! (n - 2)) OR push_bit 8 (ucast (xs ! (n - 1))))"
proof -
  obtain k where n: "n = Suc (Suc k)"
    using assms(1) by (metis Suc_le_D numeral_2_eq_2 Suc_le_mono)
  have "drop k xs = xs ! k # xs ! Suc k # drop (Suc (Suc k)) xs"
    using assms(2) n by (simp add: Cons_nth_drop_Suc)
  then have "getslice xs (n - 2) n = [xs ! k, xs ! Suc k]"
    by (simp add: getslice_def n)
  then show ?thesis by (simp add: ULInt16_parse_def n)
qed


lemma find_byte_range: "find_byte xs c = -1 \<or> (0 \<le> find_byte xs c \<and> find_byte xs c < int (length xs))"
  by (induction xs) (auto simp: Let_def)


text \<open>
  What \<open>frame_attempt\<close> does when the header parses and at least one byte follows the
  proposed frame: the two \<^verbatim>\<open>try\<close> blocks raise nothing.
\<close>

lemma frame_attempt_at_frame:
  assumes hdr: "parse_header (data s) = Inr h"
      and n: "n = 6 + unat (plength h) + 2"
      and room: "n < length (data s)"
  shows "frame_attempt s =
     (let crc_flag =
            (if accumulate (accumulate 0xffff (getslice (data s) 1 (6 + unat (plength h))))
                  [MAVLINK_MESSAGE_CRCS ! unat (msgid h)]
                \<noteq> ucast (data s ! (n - 2)) OR push_bit 8 (ucast (data s ! (n - 1)))
             then 1 else 0 :: nat)
      in if MAVLINK_MAGIC \<noteq> data s ! n
         then Inr (s\<lparr>skipped_char := Some (data s ! 0), data := drop 1 (data s)\<rparr>)
         else if crc_flag \<noteq> 0
         then Inr (s\<lparr>pcap_file := pcap_file s @ [((i s, crc_flag, n), take n (data s))],
                     data := drop n (data s), cnt_crc := cnt_crc s + 1\<rparr>)
         else Inr (s\<lparr>pcap_file := pcap_file s @ [((i s, crc_flag, n), take n (data s))],
                     data := drop n (data s), cnt_ok := cnt_ok s + 1\<rparr>))"
proof -
  have n': "n = 8 + unat (plength h)"
    using n by simp
  have "ULInt16_parse (getslice (data s) (n - 2) n) =
               Inr (ucast (data s ! (n - 2)) OR push_bit 8 (ucast (data s ! (n - 1))))"
    using n room by (intro ULInt16_parse_full) simp_all
  then have crc: "ULInt16_parse (getslice (data s) (6 + unat (plength h)) (8 + unat (plength h))) =
               Inr (ucast (data s ! (6 + unat (plength h))) OR push_bit 8 (ucast (data s ! (7 + unat (plength h)))))"
    by (simp add: n')
  have len: "min (length (data s)) (8 + unat (plength h)) = 8 + unat (plength h)"
    using room by (simp add: n')
  have room': "8 + unat (plength h) < length (data s)"
    using room by (simp add: n')
  have nxt: "getitem (data s) (8 + unat (plength h)) = Inr (data s ! (8 + unat (plength h)))"
    using room' by (simp add: getitem_def)
  have fst: "getitem (data s) 0 = Inr (data s ! 0)"
    using room' by (cases "data s") (simp_all add: getitem_def)
  show ?thesis
    unfolding n'
    by (simp add: frame_attempt_def hdr crc peek_next_sof_def getitem_seed nxt fst
          write_packet_def x25crc_def Let_def len)
qed


text \<open>
  When the proposed frame ends exactly where \<open>data\<close> ends, the byte after it cannot be
  read: the \<^verbatim>\<open>IndexError\<close> is caught and the loop is told to stop.
\<close>

lemma frame_attempt_at_end:
  assumes hdr: "parse_header (data s) = Inr h"
      and n: "length (data s) = 6 + unat (plength h) + 2"
  shows "frame_attempt s = Inr (s\<lparr>done_flag := True\<rparr>)"
proof -
  have "ULInt16_parse (getslice (data s) (length (data s) - 2) (length (data s))) =
          Inr (ucast (data s ! (length (data s) - 2)) OR push_bit 8 (ucast (data s ! (length (data s) - 1))))"
    using n by (intro ULInt16_parse_full) simp_all
  then have crc: "ULInt16_parse (getslice (data s) (6 + unat (plength h)) (8 + unat (plength h))) =
      Inr (ucast (data s ! (6 + unat (plength h))) OR push_bit 8 (ucast (data s ! (7 + unat (plength h)))))"
    by (simp add: n)
  have nxt: "getitem (data s) (8 + unat (plength h)) = Inl IndexError"
    using n by (simp add: getitem_def)
  show ?thesis
    by (simp add: frame_attempt_def hdr crc peek_next_sof_def getitem_seed nxt Let_def)
qed








text \<open>What \<open>skip_junk\<close> does with a pending skipped character.\<close>

lemma skip_junk_pending:
  assumes "skipped_char t = Some c" and "find_next_frame (data t) = int k" and "0 < k"
  shows "skip_junk t =
           t\<lparr>junk := c # take k (data t), skipped_char := None,
              pcap_file := pcap_file t @ [((i t, 3, Suc k), c # take k (data t))],
              data := drop k (data t), cnt_junk := cnt_junk t + 1\<rparr>"
proof -
  have "k \<le> length (data t)"
    using assms(2) find_byte_range [of "data t" "0xfe"] by (simp add: find_next_frame_def)
  then have "min (length (data t)) k = k" by simp
  then show ?thesis
    using assms by (simp add: skip_junk_def write_junk_def write_packet_def Let_def)
qed










section \<open>Claims\<close>

text \<open>
  C1 (bytes are conserved): the claim says that the bytes of the emitted units, plus a
  pending skipped byte, add up to the input minus the final unparsed rest.  The code
  does not do this.  On the input \<open>00 00 FE 00 00 00 00 00\<close> no skipped character is
  pending in the first round, so \<open>junk\<close> is not assigned and the junk packet written is
  empty: the run ends normally with one empty packet, no pending byte and a rest of six
  bytes, and the two leading bytes appear nowhere.
\<close>

theorem C1_leading_junk_bytes_lost:
  "convert_file [0x00, 0x00, 0xfe, 0, 0, 0, 0, 0] [] =
     Inr (\<lparr>data = [0xfe, 0, 0, 0, 0, 0], i = 1, done_flag = True, skipped_char = None,
            junk = [], cnt_ok = 0, cnt_junk = 1, cnt_crc = 0,
            pcap_file = [((1, 3, 0), [])]\<rparr>,
          (0, 0, 1, 100))"
  by code_simp

text \<open>
  C2 (the pass always ends cleanly with its statistics): the claim does not hold of the
  code.  \<^verbatim>\<open>parse_header\<close> is called outside the \<^verbatim>\<open>try\<close> blocks, so an empty input, an
  input without a sentinel and a candidate with fewer than six bytes left each end
  \<^verbatim>\<open>convert_file\<close> with an exception; and when nothing was counted the report divides by
  zero.
\<close>

theorem C2_runs_that_abort:
  "convert_file [] [] =
     Inl (FieldError,
          \<lparr>data = [], i = 1, done_flag = False, skipped_char = None, junk = [],
             cnt_ok = 0, cnt_junk = 0, cnt_crc = 0, pcap_file = []\<rparr>)
   \<and> convert_file [0x00] [] =
     Inl (ConstError,
          \<lparr>data = [0x00], i = 1, done_flag = False, skipped_char = None, junk = [],
             cnt_ok = 0, cnt_junk = 0, cnt_crc = 0, pcap_file = []\<rparr>)
   \<and> convert_file [0xfe, 0x02, 0x00] [] =
     Inl (FieldError,
          \<lparr>data = [0xfe, 0x02, 0x00], i = 1, done_flag = False, skipped_char = None,
             junk = [], cnt_ok = 0, cnt_junk = 0, cnt_crc = 0, pcap_file = []\<rparr>)
   \<and> convert_file [0xfe, 0, 0, 0, 0, 0] [] =
     Inl (ZeroDivisionError,
          \<lparr>data = [0xfe, 0, 0, 0, 0, 0], i = 1, done_flag = True, skipped_char = None,
             junk = [], cnt_ok = 0, cnt_junk = 0, cnt_crc = 0, pcap_file = []\<rparr>)"
  by code_simp

text \<open>
  C3 (two junk bytes, then a well-formed frame of ten bytes, give a junk unit of two bytes
  and a valid unit of ten): the code writes one packet only.  The frame
  \<open>FE 02 00 01 01 00 00 00 1D 6A\<close> carries its correct checksum, but it ends the buffer,
  so \<^verbatim>\<open>data[pkt_length]\<close> raises \<^verbatim>\<open>IndexError\<close> and the loop stops without writing it.
\<close>

theorem C3_counterexample:
  "written (convert_file [0x00, 0x00, 0xfe, 2, 0, 1, 1, 0, 0, 0, 0x1d, 0x6a] [])
     = [((1, 3, 0), [])]
   \<and> ULInt16_parse [0x1d, 0x6a]
     = Inr (accumulate (x25crc [2, 0, 1, 1, 0, 0, 0]) [MAVLINK_MESSAGE_CRCS ! 0])"
  by code_simp

text \<open>
  C3, as the code has it: for two zero bytes followed by any ten-byte candidate with the
  sentinel and payload length 2 (a well-formed frame among them), the run ends normally,
  exactly one packet has been written, it is a junk packet (flag 3) of the first round,
  and the ten bytes of the frame are the rest that is left unparsed.
\<close>

theorem C3_only_the_junk_unit_is_written:
  "\<exists>l d s r. convert_file ([0x00, 0x00] @ [0xfe, 2, sq, sy, co, mi, p1, p2, c1, c2]) [] = Inr (s, r)
       \<and> pcap_file s = [((1, 3, l), d)]
       \<and> data s = [0xfe, 2, sq, sy, co, mi, p1, p2, c1, c2]"
proof -
  let ?f = "[0xfe, 2, sq, sy, co, mi, p1, p2, c1, c2]"
  let ?s0 = "\<lparr>data = [0x00, 0x00, 0xfe, 2, sq, sy, co, mi, p1, p2, c1, c2], i = 0, done_flag = False, skipped_char = None,
               junk = [], cnt_ok = 0, cnt_junk = 0, cnt_crc = 0, pcap_file = []\<rparr>"
  let ?s1 = "\<lparr>data = ?f, i = 1, done_flag = False, skipped_char = None,
               junk = [], cnt_ok = 0, cnt_junk = 1, cnt_crc = 0, pcap_file = [((1, 3, 0), [])]\<rparr>"
  have skip: "skip_junk (?s0\<lparr>i := i ?s0 + 1\<rparr>) = ?s1"
    by (simp add: skip_junk_def find_next_frame_def write_junk_def write_packet_def)
  have hdr: "parse_header (data ?s1) =
      Inr \<lparr>magic = 0xfe, plength = 2, sequence = sq, sysid = sy, compid = co, msgid = mi\<rparr>"
    by (simp add: parse_header_def getslice_def MAVLINK_MAGIC_def)
  have "frame_attempt ?s1 = Inr (?s1\<lparr>done_flag := True\<rparr>)"
    by (rule frame_attempt_at_end [OF hdr]) simp
  then have body: "loop_body ?s0 = Inr (?s1\<lparr>done_flag := True\<rparr>)"
    by (simp only: loop_body_def skip)
  have "loop ?s0 = loop (?s1\<lparr>done_flag := True\<rparr>)"
    by (subst loop.simps) (simp add: body)
  also have "\<dots> = Inr (?s1\<lparr>done_flag := True\<rparr>)"
    by (subst loop.simps) simp
  finally have "loop ?s0 = Inr (?s1\<lparr>done_flag := True\<rparr>)" .
  then show ?thesis
    by (simp add: convert_file_def report_def)
qed

text \<open>
  C4 (a junk unit is the bytes before the sentinel, after the pending byte if any): with
  no byte pending, the junk packet written is not the skipped bytes.  In the first round
  on \<open>00 00 FE 00 00 00 00 00\<close> the sentinel is at offset 2; the packet written is empty,
  the two bytes are dropped from \<open>data\<close>, and the junk counter goes up by one.
\<close>

theorem C4_junk_without_pending_byte:
  "skip_junk \<lparr>data = [0x00, 0x00, 0xfe, 0, 0, 0, 0, 0], i = 1, done_flag = False,
              skipped_char = None, junk = [], cnt_ok = 0, cnt_junk = 0, cnt_crc = 0,
              pcap_file = []\<rparr>
   = \<lparr>data = [0xfe, 0, 0, 0, 0, 0], i = 1, done_flag = False, skipped_char = None,
       junk = [], cnt_ok = 0, cnt_junk = 1, cnt_crc = 0, pcap_file = [((1, 3, 0), [])]\<rparr>"
  by code_simp







text \<open>
  C7 (a failed resync check writes nothing and moves on by one byte): when the header
  parses, the proposed length is \<open>n\<close>, and the byte at offset \<open>n\<close> exists and is not the
  sentinel, the attempt leaves the output file as it was, stores the first byte of \<open>data\<close>
  in \<open>skipped_char\<close>, drops exactly that byte from \<open>data\<close>, and the loop goes on
  (\<open>done_flag\<close> is untouched).  \<open>skip_junk_pending\<close> above is the other half: a
  pending byte is put in front of the next junk packet.
\<close>

theorem C7_resync_failure_stows_one_byte:
  assumes "parse_header (data s) = Inr h"
      and "n = 6 + unat (plength h) + 2"
      and "n < length (data s)"
      and "data s ! n \<noteq> MAVLINK_MAGIC"
  shows "frame_attempt s = Inr (s\<lparr>skipped_char := Some (data s ! 0), data := drop 1 (data s)\<rparr>)"
  using assms by (auto simp add: frame_attempt_at_frame Let_def)


theorem C7_witness:
  "parse_header (data \<lparr>data = [0xfe, 0, 0, 0, 0, 0, 0, 0, 7, 0xfe], i = 1,
          done_flag = False, skipped_char = None, junk = [], cnt_ok = 0, cnt_junk = 0,
          cnt_crc = 0, pcap_file = []\<rparr>)
     = Inr \<lparr>magic = 0xfe, plength = 0, sequence = 0, sysid = 0, compid = 0, msgid = 0\<rparr>
   \<and> frame_attempt \<lparr>data = [0xfe, 0, 0, 0, 0, 0, 0, 0, 7, 0xfe], i = 1,
          done_flag = False, skipped_char = None, junk = [], cnt_ok = 0, cnt_junk = 0,
          cnt_crc = 0, pcap_file = []\<rparr>
     = Inr \<lparr>data = [0, 0, 0, 0, 0, 0, 0, 7, 0xfe], i = 1, done_flag = False,
            skipped_char = Some 0xfe, junk = [], cnt_ok = 0, cnt_junk = 0, cnt_crc = 0,
            pcap_file = []\<rparr>"
  (is "parse_header (data ?s) = Inr ?h \<and> frame_attempt ?s = ?r")
proof -
  have hs: "parse_header (data ?s) = Inr ?h"
    by code_simp
  have n: "(8 :: nat) = 6 + unat (plength ?h) + 2"
    by simp
  have ls: "8 < length (data ?s)"
    by simp
  have ms: "data ?s ! 8 \<noteq> MAVLINK_MAGIC"
    by (simp add: MAVLINK_MAGIC_def)
  have "frame_attempt ?s = ?r"
    by (subst C7_resync_failure_stows_one_byte [OF hs n ls ms]) simp
  then show ?thesis
    using hs by blast
qed







end
